theory Spec2Isabelle
  imports Main "HOL-Library.Sublist"
begin

section \<open>HTTP calls and timers\<close>

text \<open>
  Every network call of the two services goes through \<open>firstValueFrom\<close> of an axios
  observable: it either emits one response, with a status and a body, or it errors with
  a message (connection refused, timeout, a status that axios rejects). A call is
  modelled by its outcome, which the functions below receive as an argument.
\<close>

datatype 'a http = Response int 'a | AxiosError string

text \<open>
  A handle returned by \<open>setInterval\<close>, with the period it was armed with. The fields
  holding one are \<open>NodeJS.Timeout | null\<close>, here \<open>Timeout option\<close>.
\<close>

datatype Timeout = Interval int

section \<open>The seed node connection (p2p.service.ts)\<close>

datatype RegistrationStatus = NOT_REGISTERED | REGISTERING | REGISTERED | FAILED

record SeedNodeConfig =
  seedNodeAddress :: string
  nodePort :: int
  nodeHost :: string
  pingInterval :: int
  reconnectInterval :: int
  maxReconnectAttempts :: int

record P2pService =
  config :: SeedNodeConfig
  nodeAddress :: string
  connected :: bool
  registrationStatus :: RegistrationStatus
  lastPingTime :: "nat option"
  pingIntervalRef :: "Timeout option"
  reconnectAttempts :: int
  reconnectIntervalRef :: "Timeout option"

text \<open>
  The values the constructor reads from the configuration service; a key that is not set
  reads as \<open>undefined\<close>, here \<open>None\<close>.
\<close>

record Environment =
  SEED_NODE_ADDRESS :: "string option"
  NODE_PORT :: "int option"
  NODE_HOST :: "string option"
  PING_INTERVAL :: "int option"
  RECONNECT_INTERVAL :: "int option"
  MAX_RECONNECT_ATTEMPTS :: "int option"

text \<open>
  \<open>x || d\<close> on a configured value. The configuration service hands out the strings of
  the environment, so the only falsy values are \<open>undefined\<close> and the empty string. A
  numeric setting is modelled by the whole number its string stands for, \<open>None\<close> standing
  for an unset or empty variable; every number that is set is kept, 0 included (the
  string \<open>'0'\<close> is truthy).
\<close>

definition orString :: "string option \<Rightarrow> string \<Rightarrow> string" where
  "orString x d = (case x of None \<Rightarrow> d | Some v \<Rightarrow> if v = [] then d else v)"

definition orNumber :: "int option \<Rightarrow> int \<Rightarrow> int" where
  "orNumber x d = (case x of None \<Rightarrow> d | Some v \<Rightarrow> v)"

text \<open>The decimal text of a number, as a template literal renders it.\<close>

fun digits :: "nat \<Rightarrow> string" where
  "digits n =
     (if n < 10 then [char_of (48 + n)]
      else digits (n div 10) @ [char_of (48 + n mod 10)])"

definition numberToString :: "int \<Rightarrow> string" where
  "numberToString i = (if i < 0 then CHR ''-'' # digits (nat (- i)) else digits (nat i))"

definition constructor :: "Environment \<Rightarrow> P2pService" where
  "constructor env =
     (let cfg = \<lparr> seedNodeAddress = orString (SEED_NODE_ADDRESS env) ''localhost:3000'',
                  nodePort = orNumber (NODE_PORT env) 3100,
                  nodeHost = orString (NODE_HOST env) ''localhost'',
                  pingInterval = orNumber (PING_INTERVAL env) 30000,
                  reconnectInterval = orNumber (RECONNECT_INTERVAL env) 10000,
                  maxReconnectAttempts = orNumber (MAX_RECONNECT_ATTEMPTS env) 5 \<rparr>
      in \<lparr> config = cfg,
           nodeAddress = nodeHost cfg @ '':'' @ numberToString (nodePort cfg),
           connected = False,
           registrationStatus = NOT_REGISTERED,
           lastPingTime = None,
           pingIntervalRef = None,
           reconnectAttempts = 0,
           reconnectIntervalRef = None \<rparr>)"

definition stopPingInterval :: "P2pService \<Rightarrow> P2pService" where
  "stopPingInterval s =
     (if pingIntervalRef s \<noteq> None then s\<lparr>pingIntervalRef := None\<rparr> else s)"

definition startPingInterval :: "P2pService \<Rightarrow> P2pService" where
  "startPingInterval s =
     (stopPingInterval s)\<lparr>pingIntervalRef := Some (Interval (pingInterval (config s)))\<rparr>"

definition stopReconnectInterval :: "P2pService \<Rightarrow> P2pService" where
  "stopReconnectInterval s =
     (if reconnectIntervalRef s \<noteq> None then s\<lparr>reconnectIntervalRef := None\<rparr> else s)"

text \<open>
  \<open>startReconnectInterval\<close> installs the callback; what the callback does when the
  interval fires is \<open>reconnectTick\<close> below.
\<close>

definition startReconnectInterval :: "P2pService \<Rightarrow> P2pService" where
  "startReconnectInterval s =
     (stopReconnectInterval s)
       \<lparr>reconnectIntervalRef := Some (Interval (reconnectInterval (config s)))\<rparr>"

definition handleConnectionFailure :: "P2pService \<Rightarrow> P2pService" where
  "handleConnectionFailure s =
     (let s1 = s\<lparr>connected := False\<rparr>
      in if reconnectIntervalRef s1 = None then startReconnectInterval s1 else s1)"

text \<open>
  \<open>pingSeedNode\<close>: the argument is the outcome of \<open>GET /ping\<close> and the time of
  \<open>new Date()\<close>. An erroring request is rethrown by \<open>catchError\<close> and lands in the
  \<open>catch\<close> block, which first clears \<open>connected\<close> and then tests it.
\<close>

definition pingSeedNode :: "'a http \<Rightarrow> nat \<Rightarrow> P2pService \<Rightarrow> bool \<times> P2pService" where
  "pingSeedNode reply now s =
     (case reply of
        Response status body \<Rightarrow>
          if status = 200 then (True, s\<lparr>connected := True, lastPingTime := Some now\<rparr>)
          else (False, s\<lparr>connected := False\<rparr>)
      | AxiosError msg \<Rightarrow>
          (let s1 = s\<lparr>connected := False\<rparr>;
               s2 = (if connected s1 then handleConnectionFailure s1 else s1)
           in (False, s2)))"

text \<open>
  \<open>registerWithSeedNode\<close>: the argument is the outcome of \<open>POST /register\<close>. An
  erroring request sets FAILED in \<open>catchError\<close> and again in the \<open>catch\<close> block.
\<close>

definition registerWithSeedNode :: "'a http \<Rightarrow> P2pService \<Rightarrow> bool \<times> P2pService" where
  "registerWithSeedNode reply s =
     (let s1 = s\<lparr>registrationStatus := REGISTERING\<rparr>
      in case reply of
           Response status body \<Rightarrow>
             if status = 201 then (True, s1\<lparr>registrationStatus := REGISTERED\<rparr>)
             else if status = 200 then (True, s1\<lparr>registrationStatus := REGISTERED\<rparr>)
             else (False, s1\<lparr>registrationStatus := FAILED\<rparr>)
         | AxiosError msg \<Rightarrow>
             (False, s1\<lparr>registrationStatus := FAILED\<rparr>\<lparr>registrationStatus := FAILED\<rparr>))"

text \<open>
  \<open>connectToSeedNode\<close>: neither callee throws (each has its own \<open>catch\<close>), so the
  \<open>catch\<close> block of this function is never entered. The registration request is only
  sent after a successful ping; its boolean result is dropped.
\<close>

definition connectToSeedNode ::
  "'a http \<Rightarrow> 'b http \<Rightarrow> nat \<Rightarrow> P2pService \<Rightarrow> bool \<times> P2pService" where
  "connectToSeedNode pingReply registerReply now s =
     (let (pingResult, s1) = pingSeedNode pingReply now s
      in if \<not> pingResult then (False, handleConnectionFailure s1)
         else (let (registered, s2) = registerWithSeedNode registerReply s1
               in (True, s2)))"

definition onModuleInit ::
  "'a http \<Rightarrow> 'b http \<Rightarrow> nat \<Rightarrow> P2pService \<Rightarrow> P2pService" where
  "onModuleInit pingReply registerReply now s =
     startPingInterval (snd (connectToSeedNode pingReply registerReply now s))"

definition onModuleDestroy :: "P2pService \<Rightarrow> P2pService" where
  "onModuleDestroy s = stopReconnectInterval (stopPingInterval s)"

text \<open>
  One firing of the ping interval. A cleared interval does not fire, so the tick leaves
  the state alone when no handle is held.
\<close>

definition pingTick :: "'a http \<Rightarrow> nat \<Rightarrow> P2pService \<Rightarrow> P2pService" where
  "pingTick reply now s =
     (if pingIntervalRef s = None then s else snd (pingSeedNode reply now s))"

text \<open>
  One firing of the reconnect interval, with what it did: nothing (no interval armed),
  giving up without a connection attempt, or one call of \<open>connectToSeedNode\<close> with its
  result.
\<close>

datatype tick = NotArmed | GaveUp | Attempted bool

definition reconnectTick ::
  "'a http \<Rightarrow> 'b http \<Rightarrow> nat \<Rightarrow> P2pService \<Rightarrow> tick \<times> P2pService" where
  "reconnectTick pingReply registerReply now s =
     (if reconnectIntervalRef s = None then (NotArmed, s)
      else if reconnectAttempts s \<ge> maxReconnectAttempts (config s)
      then (GaveUp, stopReconnectInterval s)
      else
        (let s1 = s\<lparr>reconnectAttempts := reconnectAttempts s + 1\<rparr>;
             (result, s2) = connectToSeedNode pingReply registerReply now s1
         in if connected s2
            then (Attempted result, (stopReconnectInterval s2)\<lparr>reconnectAttempts := 0\<rparr>)
            else (Attempted result, s2)))"

text \<open>
  \<open>getKnownNodes\<close> and \<open>getActiveNodes\<close>: the result, paired with the URLs requested.
  The request is only issued when \<open>connected\<close> holds.
\<close>

definition getKnownNodes :: "string list http \<Rightarrow> P2pService \<Rightarrow> string list \<times> string list" where
  "getKnownNodes reply s =
     (if \<not> connected s then ([], [])
      else
        (let url = ''http://'' @ seedNodeAddress (config s) @ ''/nodes''
         in case reply of
              Response status body \<Rightarrow> (body, [url])
            | AxiosError msg \<Rightarrow> ([], [url])))"

definition getActiveNodes :: "string list http \<Rightarrow> P2pService \<Rightarrow> string list \<times> string list" where
  "getActiveNodes reply s =
     (if \<not> connected s then ([], [])
      else
        (let url = ''http://'' @ seedNodeAddress (config s) @ ''/nodes/active''
         in case reply of
              Response status body \<Rightarrow> (body, [url])
            | AxiosError msg \<Rightarrow> ([], [url])))"

section \<open>The validator directory and the fan-out (validators.service.ts)\<close>

record ValidatorNode =
  address :: string
  nodeType :: string
  lastSeen :: string
  isResponding :: bool
  version :: "string option"

record 'd ValidatorResponse =
  success :: bool
  data :: "'d option"
  error :: "string option"
  timestamp :: string
  validatorAddress :: string

datatype ValidatorEndpoints =
  PING | TX | TX_BATCH | CRITICAL | STATUS_TX | STATUS_CRITICAL | CHAIN_TX | CHAIN_CRITICAL
  | MEMPOOL_TX | MEMPOOL_CRITICAL | BLOCK_TX | BLOCK_CRITICAL

fun path :: "ValidatorEndpoints \<Rightarrow> string" where
  "path PING = ''/ping''"
| "path TX = ''/tx''"
| "path TX_BATCH = ''/tx/batch''"
| "path CRITICAL = ''/critical''"
| "path STATUS_TX = ''/status/tx''"
| "path STATUS_CRITICAL = ''/status/critical''"
| "path CHAIN_TX = ''/chain/tx''"
| "path CHAIN_CRITICAL = ''/chain/critical''"
| "path MEMPOOL_TX = ''/mempool/tx''"
| "path MEMPOOL_CRITICAL = ''/mempool/critical''"
| "path BLOCK_TX = ''/block/tx''"
| "path BLOCK_CRITICAL = ''/block/critical''"

record ValidatorsService =
  validatorNodes :: "ValidatorNode list"
  seedNode :: string
  healthCheckInterval :: "Timeout option"

text \<open>
  The body of \<open>GET /nodes/active\<close> is cast to an array of nodes without a check; a body
  that is not an array makes \<open>allNodes.filter\<close> throw inside the \<open>try\<close>.
\<close>

datatype body = NodeArray "ValidatorNode list" | NotAnArray

definition loadValidatorNodes ::
  "body http \<Rightarrow> ValidatorsService \<Rightarrow> ValidatorNode list \<times> ValidatorsService" where
  "loadValidatorNodes reply s =
     (case reply of
        AxiosError msg \<Rightarrow> ([], s)
      | Response status NotAnArray \<Rightarrow> ([], s)
      | Response status (NodeArray allNodes) \<Rightarrow>
          (let s1 = s\<lparr>validatorNodes := filter (\<lambda>node. nodeType node = ''validator'') allNodes\<rparr>
           in (validatorNodes s1, s1)))"

definition refreshValidatorNodes ::
  "body http \<Rightarrow> ValidatorsService \<Rightarrow> ValidatorNode list \<times> ValidatorsService" where
  "refreshValidatorNodes reply s = loadValidatorNodes reply s"

definition getValidatorNodes :: "ValidatorsService \<Rightarrow> ValidatorNode list" where
  "getValidatorNodes s = validatorNodes s"

definition getActiveValidatorNodes :: "ValidatorsService \<Rightarrow> ValidatorNode list" where
  "getActiveValidatorNodes s = filter (\<lambda>node. isResponding node) (validatorNodes s)"

text \<open>
  A fan-out issues one request per list position. The peers of one fan-out are described
  by what the request at position \<open>i\<close> to a URL comes to, the time at which the callback
  at position \<open>i\<close> reads the clock, and the time at which the settled promises are mapped.
  A request comes to what its observable does, or to an exception thrown around it
  (which the \<open>catch\<close> block of the callback receives).
\<close>

datatype 'd call = Observed "'d http" | Thrown string

record 'd peers =
  request :: "nat \<Rightarrow> string \<Rightarrow> 'd call"
  clock :: "nat \<Rightarrow> string"
  settledAt :: string

definition pingValidator :: "'d call \<Rightarrow> bool" where
  "pingValidator outcome =
     (case outcome of
        Observed (Response status body) \<Rightarrow> status = 200
      | Observed (AxiosError msg) \<Rightarrow> False
      | Thrown msg \<Rightarrow> False)"

text \<open>
  The callback of the health check on one node: \<open>pingValidator\<close> never throws, so the
  \<open>catch\<close> block of the callback is not entered. The callbacks run concurrently, each
  writing to the node object it was called on; the sweep is modelled as the list of the
  nodes so written. A load that replaces the collection while a sweep still awaits its
  probes is outside this model.
\<close>

definition checkNode :: "'d call \<Rightarrow> string \<Rightarrow> ValidatorNode \<Rightarrow> ValidatorNode" where
  "checkNode outcome now node =
     (let isHealthy = pingValidator outcome;
          node1 = node\<lparr>isResponding := isHealthy\<rparr>
      in if isHealthy then node1\<lparr>lastSeen := now\<rparr> else node1)"

definition checkValidatorNodesHealth :: "'d peers \<Rightarrow> ValidatorsService \<Rightarrow> ValidatorsService" where
  "checkValidatorNodesHealth w s =
     s\<lparr>validatorNodes :=
         map (\<lambda>(i, node).
                checkNode (request w i (''http://'' @ address node @ path PING)) (clock w i) node)
             (enumerate 0 (validatorNodes s))\<rparr>"

text \<open>
  The callback of a broadcast on one validator, as the promise it returns settles, and
  the mapping of a settled promise to a response. The five broadcasts of the service
  repeat both word for word. \<open>Promise.allSettled\<close> resolves to the settled promises in
  the order of the promises it was given, whatever the order in which they settle, so
  the promises and their results are lists in the order of the validators.
\<close>

datatype 'v settled = Fulfilled 'v | Rejected

definition dispatch :: "'d call \<Rightarrow> string \<Rightarrow> ValidatorNode \<Rightarrow> 'd ValidatorResponse settled" where
  "dispatch outcome now validator =
     (case outcome of
        Observed (Response status body) \<Rightarrow>
          Fulfilled \<lparr> success = True, data = Some body, error = None,
                      timestamp = now, validatorAddress = address validator \<rparr>
      | Observed (AxiosError msg) \<Rightarrow>
          Fulfilled \<lparr> success = False, data = None, error = Some msg,
                      timestamp = now, validatorAddress = address validator \<rparr>
      | Thrown msg \<Rightarrow>
          Fulfilled \<lparr> success = False, data = None, error = Some msg,
                      timestamp = now, validatorAddress = address validator \<rparr>)"

definition settledValue :: "string \<Rightarrow> 'd ValidatorResponse settled \<Rightarrow> 'd ValidatorResponse" where
  "settledValue now result =
     (case result of
        Fulfilled v \<Rightarrow> v
      | Rejected \<Rightarrow>
          \<lparr> success = False, data = None, error = Some ''Promise rejected'',
            timestamp = now, validatorAddress = ''unknown'' \<rparr>)"

definition sendTransaction :: "'d peers \<Rightarrow> 'p \<Rightarrow> ValidatorsService \<Rightarrow> 'd ValidatorResponse list" where
  "sendTransaction w transaction s =
     (let activeValidators = getActiveValidatorNodes s
      in if length activeValidators = 0 then []
         else
           (let promises =
                  map (\<lambda>(i, validator).
                         dispatch (request w i (''http://'' @ address validator @ path TX))
                           (clock w i) validator)
                      (enumerate 0 activeValidators)
            in map (settledValue (settledAt w)) promises))"

definition sendBatchTransactions ::
  "'d peers \<Rightarrow> 'p list \<Rightarrow> ValidatorsService \<Rightarrow> 'd ValidatorResponse list" where
  "sendBatchTransactions w batchRequest s =
     (let activeValidators = getActiveValidatorNodes s
      in if length activeValidators = 0 then []
         else
           (let promises =
                  map (\<lambda>(i, validator).
                         dispatch (request w i (''http://'' @ address validator @ path TX_BATCH))
                           (clock w i) validator)
                      (enumerate 0 activeValidators)
            in map (settledValue (settledAt w)) promises))"

definition sendCriticalProcess ::
  "'d peers \<Rightarrow> 'p \<Rightarrow> ValidatorsService \<Rightarrow> 'd ValidatorResponse list" where
  "sendCriticalProcess w criticalRequest s =
     (let activeValidators = getActiveValidatorNodes s
      in if length activeValidators = 0 then []
         else
           (let promises =
                  map (\<lambda>(i, validator).
                         dispatch (request w i (''http://'' @ address validator @ path CRITICAL))
                           (clock w i) validator)
                      (enumerate 0 activeValidators)
            in map (settledValue (settledAt w)) promises))"

datatype ledger = tx | critical

definition getBlockchainStatus ::
  "'d peers \<Rightarrow> ledger \<Rightarrow> ValidatorsService \<Rightarrow> 'd ValidatorResponse list" where
  "getBlockchainStatus w chain s =
     (let activeValidators = getActiveValidatorNodes s
      in if length activeValidators = 0 then []
         else
           (let endpoint = (if chain = tx then STATUS_TX else STATUS_CRITICAL);
                promises =
                  map (\<lambda>(i, validator).
                         dispatch (request w i (''http://'' @ address validator @ path endpoint))
                           (clock w i) validator)
                      (enumerate 0 activeValidators)
            in map (settledValue (settledAt w)) promises))"

definition getMempoolStatus ::
  "'d peers \<Rightarrow> ledger \<Rightarrow> ValidatorsService \<Rightarrow> 'd ValidatorResponse list" where
  "getMempoolStatus w pool s =
     (let activeValidators = getActiveValidatorNodes s
      in if length activeValidators = 0 then []
         else
           (let endpoint = (if pool = tx then MEMPOOL_TX else MEMPOOL_CRITICAL);
                promises =
                  map (\<lambda>(i, validator).
                         dispatch (request w i (''http://'' @ address validator @ path endpoint))
                           (clock w i) validator)
                      (enumerate 0 activeValidators)
            in map (settledValue (settledAt w)) promises))"

subsection \<open>The controller's summaries (validators.controller.ts)\<close>

record 'd Broadcast =
  message :: string
  results :: "'d ValidatorResponse list"
  successCount :: nat
  totalValidators :: nat

record 'd Query =
  ledgerName :: string
  queried :: "'d ValidatorResponse list"
  respondingValidators :: nat
  totalQueried :: nat

definition postTransaction :: "'d peers \<Rightarrow> 'p \<Rightarrow> ValidatorsService \<Rightarrow> 'd Broadcast" where
  "postTransaction w transaction s =
     (let rs = sendTransaction w transaction s
      in \<lparr> message = ''Transaction sent to validators'', results = rs,
           successCount = length (filter success rs), totalValidators = length rs \<rparr>)"

definition postBatchTransactions :: "'d peers \<Rightarrow> 'p list \<Rightarrow> ValidatorsService \<Rightarrow> 'd Broadcast" where
  "postBatchTransactions w batchRequest s =
     (let rs = sendBatchTransactions w batchRequest s
      in \<lparr> message = ''Batch of '' @ numberToString (int (length batchRequest))
                       @ '' transactions sent to validators'',
           results = rs,
           successCount = length (filter success rs), totalValidators = length rs \<rparr>)"

definition postCriticalProcess :: "'d peers \<Rightarrow> 'p \<Rightarrow> ValidatorsService \<Rightarrow> 'd Broadcast" where
  "postCriticalProcess w criticalRequest s =
     (let rs = sendCriticalProcess w criticalRequest s
      in \<lparr> message = ''Critical process sent to validators'', results = rs,
           successCount = length (filter success rs), totalValidators = length rs \<rparr>)"

definition ledgerText :: "ledger \<Rightarrow> string" where
  "ledgerText l = (case l of tx \<Rightarrow> ''tx'' | critical \<Rightarrow> ''critical'')"

definition queryBlockchainStatus ::
  "'d peers \<Rightarrow> ledger option \<Rightarrow> ValidatorsService \<Rightarrow> 'd Query" where
  "queryBlockchainStatus w chain s =
     (let c = (case chain of None \<Rightarrow> tx | Some l \<Rightarrow> l);
          rs = getBlockchainStatus w c s
      in \<lparr> ledgerName = ledgerText c, queried = rs,
           respondingValidators = length (filter success rs), totalQueried = length rs \<rparr>)"

definition queryMempoolStatus ::
  "'d peers \<Rightarrow> ledger option \<Rightarrow> ValidatorsService \<Rightarrow> 'd Query" where
  "queryMempoolStatus w pool s =
     (let c = (case pool of None \<Rightarrow> tx | Some l \<Rightarrow> l);
          rs = getMempoolStatus w c s
      in \<lparr> ledgerName = ledgerText c, queried = rs,
           respondingValidators = length (filter success rs), totalQueried = length rs \<rparr>)"

section \<open>Runs of the seed node connection\<close>

text \<open>
  A run of the service: \<open>onModuleInit\<close> on the constructed service, then any sequence
  of timer firings and calls of the public methods, then possibly \<open>onModuleDestroy\<close>.
  Each event runs to completion before the next one starts; an interval that fires while
  the previous callback still awaits its request is outside this model.
\<close>

datatype event =
  PingTick "unit http" nat
  | ReconnectTick "unit http" "unit http" nat
  | Connect "unit http" "unit http" nat
  | Ping "unit http" nat
  | Register "unit http"
  | Destroy

fun step :: "P2pService \<Rightarrow> event \<Rightarrow> P2pService" where
  "step s (PingTick reply now) = pingTick reply now s"
| "step s (ReconnectTick pingReply registerReply now) =
     snd (reconnectTick pingReply registerReply now s)"
| "step s (Connect pingReply registerReply now) =
     snd (connectToSeedNode pingReply registerReply now s)"
| "step s (Ping reply now) = snd (pingSeedNode reply now s)"
| "step s (Register reply) = snd (registerWithSeedNode reply s)"
| "step s Destroy = onModuleDestroy s"

definition run ::
  "Environment \<Rightarrow> unit http \<Rightarrow> unit http \<Rightarrow> nat \<Rightarrow> event list \<Rightarrow> P2pService" where
  "run env pingReply registerReply now events =
     foldl step (onModuleInit pingReply registerReply now (constructor env)) events"

text \<open>
  What the firings of the reconnect interval among a sequence of events did, in order.
  The other events (pings of the ping interval, calls of the public methods) take place
  between the firings and are stepped over.
\<close>

fun firings :: "P2pService \<Rightarrow> event list \<Rightarrow> tick list" where
  "firings s [] = []"
| "firings s (ReconnectTick pingReply registerReply now # rest) =
     fst (reconnectTick pingReply registerReply now s)
       # firings (snd (reconnectTick pingReply registerReply now s)) rest"
| "firings s (ev # rest) = firings (step s ev) rest"

text \<open>No firing in the list called \<open>connectToSeedNode\<close>.\<close>

definition noAttempts :: "tick list \<Rightarrow> bool" where
  "noAttempts ts = list_all (\<lambda>t. t = NotArmed \<or> t = GaveUp) ts"

text \<open>A ping fails when the request errors or answers with a status other than 200.\<close>

definition pingFails :: "'a http \<Rightarrow> bool" where
  "pingFails reply =
     (case reply of Response status body \<Rightarrow> status \<noteq> 200 | AxiosError msg \<Rightarrow> True)"

definition failingTick :: "event \<Rightarrow> bool" where
  "failingTick ev = (case ev of ReconnectTick p r now \<Rightarrow> pingFails p | _ \<Rightarrow> False)"

definition isReconnectTick :: "event \<Rightarrow> bool" where
  "isReconnectTick ev = (case ev of ReconnectTick p r now \<Rightarrow> True | _ \<Rightarrow> False)"

text \<open>
  The invariant of the retry counter: it is non-negative and does not exceed the
  configured maximum (or 0, should that be negative).
\<close>

definition counterInv :: "P2pService \<Rightarrow> bool" where
  "counterInv s \<longleftrightarrow>
     0 \<le> reconnectAttempts s
     \<and> reconnectAttempts s \<le> max 0 (maxReconnectAttempts (config s))"

section \<open>What a fan-out is expected to return\<close>

text \<open>
  The request that position \<open>i\<close> of a fan-out to endpoint \<open>e\<close> comes to, and whether it was
  delivered: the observable emitted a response.
\<close>

definition outcomeOf :: "'d peers \<Rightarrow> ValidatorEndpoints \<Rightarrow> nat \<Rightarrow> ValidatorNode \<Rightarrow> 'd call" where
  "outcomeOf w e i validator = request w i (''http://'' @ address validator @ path e)"

definition delivered :: "'d call \<Rightarrow> bool" where
  "delivered outcome =
     (case outcome of
        Observed (Response status body) \<Rightarrow> True
      | Observed (AxiosError msg) \<Rightarrow> False
      | Thrown msg \<Rightarrow> False)"

text \<open>
  One response per peer, in the order of the peers, each with the address of its peer
  and with \<open>success\<close> set exactly when its own request was delivered.
\<close>

definition onePerPeer ::
  "'d peers \<Rightarrow> ValidatorEndpoints \<Rightarrow> ValidatorNode list \<Rightarrow> 'd ValidatorResponse list \<Rightarrow> bool" where
  "onePerPeer w e peers rs \<longleftrightarrow>
     length rs = length peers \<and>
     map validatorAddress rs = map address peers \<and>
     map success rs = map (\<lambda>(i, v). delivered (outcomeOf w e i v)) (enumerate 0 peers)"

definition deliveredCount :: "'d peers \<Rightarrow> ValidatorEndpoints \<Rightarrow> ValidatorNode list \<Rightarrow> nat" where
  "deliveredCount w e peers =
     length (filter (\<lambda>(i, v). delivered (outcomeOf w e i v)) (enumerate 0 peers))"

text \<open>The body that the five broadcasts have in common, past the test for no peers.\<close>

definition fan ::
  "'d peers \<Rightarrow> ValidatorEndpoints \<Rightarrow> ValidatorNode list \<Rightarrow> 'd ValidatorResponse list" where
  "fan w e peers =
     map (settledValue (settledAt w))
        (map (\<lambda>(i, v). dispatch (request w i (''http://'' @ address v @ path e)) (clock w i) v)
           (enumerate 0 peers))"

section \<open>Concrete services and peers\<close>

definition defaults :: Environment where
  "defaults = \<lparr> SEED_NODE_ADDRESS = None, NODE_PORT = None, NODE_HOST = None,
                PING_INTERVAL = None, RECONNECT_INTERVAL = None, MAX_RECONNECT_ATTEMPTS = None \<rparr>"

definition twoAttempts :: Environment where
  "twoAttempts = defaults\<lparr>MAX_RECONNECT_ATTEMPTS := Some 2\<rparr>"

definition unreachable :: "unit http" where
  "unreachable = AxiosError ''connect ECONNREFUSED''"

definition sixFailedTicks :: "event list" where
  "sixFailedTicks =
     [ReconnectTick unreachable unreachable 1, ReconnectTick unreachable unreachable 2,
      ReconnectTick unreachable unreachable 3, ReconnectTick unreachable unreachable 4,
      ReconnectTick unreachable unreachable 5, ReconnectTick unreachable unreachable 6]"

definition zeroAttempts :: Environment where
  "zeroAttempts = defaults\<lparr>MAX_RECONNECT_ATTEMPTS := Some 0\<rparr>"

definition twoFailedFirings :: "event list" where
  "twoFailedFirings =
     [ReconnectTick unreachable unreachable 1, PingTick (Response 200 ()) 2,
      ReconnectTick (Response 503 ()) unreachable 3, PingTick unreachable 4]"

definition threePeers :: ValidatorsService where
  "threePeers =
     \<lparr> validatorNodes =
         [\<lparr> address = ''A'', nodeType = ''validator'', lastSeen = ''t0'',
             isResponding = True, version = None \<rparr>,
          \<lparr> address = ''B'', nodeType = ''validator'', lastSeen = ''t0'',
             isResponding = True, version = None \<rparr>,
          \<lparr> address = ''C'', nodeType = ''validator'', lastSeen = ''t0'',
             isResponding = True, version = None \<rparr>],
       seedNode = ''localhost:3000'', healthCheckInterval = Some (Interval 60000) \<rparr>"

definition noPeers :: ValidatorsService where
  "noPeers =
     \<lparr> validatorNodes =
         [\<lparr> address = ''A'', nodeType = ''validator'', lastSeen = ''t0'',
             isResponding = False, version = None \<rparr>],
       seedNode = ''localhost:3000'', healthCheckInterval = Some (Interval 60000) \<rparr>"

definition secondTimesOut :: "unit peers" where
  "secondTimesOut =
     \<lparr> request = (\<lambda>i url. if i = 1 then Observed (AxiosError ''timeout of 10000ms exceeded'')
                           else Observed (Response 200 ())),
       clock = (\<lambda>i. ''t1''), settledAt = ''t2'' \<rparr>"

definition middleTimesOut :: "unit peers" where
  "middleTimesOut =
     \<lparr> request = (\<lambda>i url. if url = ''http://B/ping''
                           then Observed (AxiosError ''timeout of 5000ms exceeded'')
                           else Observed (Response 200 ())),
       clock = (\<lambda>i. ''t1''), settledAt = ''t2'' \<rparr>"

section \<open>Connecting, pinging and the reconnect interval\<close>

lemma ping_cases:
  "pingSeedNode p now s =
     (if pingFails p then (False, s\<lparr>connected := False\<rparr>)
      else (True, s\<lparr>connected := True, lastPingTime := Some now\<rparr>))"
  by (cases p) (auto simp add: pingSeedNode_def pingFails_def Let_def)

lemma register_frame:
  "reconnectAttempts (snd (registerWithSeedNode r s)) = reconnectAttempts s
   \<and> reconnectIntervalRef (snd (registerWithSeedNode r s)) = reconnectIntervalRef s
   \<and> pingIntervalRef (snd (registerWithSeedNode r s)) = pingIntervalRef s
   \<and> config (snd (registerWithSeedNode r s)) = config s"
  by (cases r) (auto simp add: registerWithSeedNode_def Let_def)

lemma connect_cases:
  "connectToSeedNode p r now s =
     (if pingFails p
      then (False, s\<lparr>connected := False,
                     reconnectIntervalRef :=
                       (if reconnectIntervalRef s = None
                        then Some (Interval (reconnectInterval (config s)))
                        else reconnectIntervalRef s)\<rparr>)
      else (True, s\<lparr>connected := True, lastPingTime := Some now,
                    registrationStatus := registrationStatus (snd (registerWithSeedNode r s))\<rparr>))"
  by (cases p; cases r)
     (auto simp add: connectToSeedNode_def pingSeedNode_def registerWithSeedNode_def pingFails_def
        handleConnectionFailure_def startReconnectInterval_def stopReconnectInterval_def Let_def)

lemma tick_cases:
  "reconnectTick p r now s =
     (if reconnectIntervalRef s = None then (NotArmed, s)
      else if maxReconnectAttempts (config s) \<le> reconnectAttempts s
      then (GaveUp, s\<lparr>reconnectIntervalRef := None\<rparr>)
      else if pingFails p
      then (Attempted False, s\<lparr>reconnectAttempts := reconnectAttempts s + 1, connected := False\<rparr>)
      else (Attempted True,
            s\<lparr>reconnectAttempts := 0, connected := True, lastPingTime := Some now,
              registrationStatus := registrationStatus (snd (registerWithSeedNode r s)),
              reconnectIntervalRef := None\<rparr>))"
  by (auto simp add: reconnectTick_def connect_cases stopReconnectInterval_def Let_def
        registerWithSeedNode_def split: http.splits)

text \<open>
  C1. When the ping succeeds and the registration fails, \<open>connectToSeedNode\<close> does set
  \<open>registrationStatus\<close> to FAILED, but it drops the result of \<open>registerWithSeedNode\<close>: it
  returns \<open>true\<close>, leaves \<open>connected\<close> as the ping set it, and starts no reconnect
  interval. This holds for an erroring registration request from any state, and is
  evaluated on the freshly constructed service when the seed node answers
  \<open>POST /register\<close> with status 500.
\<close>

theorem failed_registration_reports_success:
  "connectToSeedNode (Response 200 body) (AxiosError msg) now s
     = (True, s\<lparr>connected := True, lastPingTime := Some now, registrationStatus := FAILED\<rparr>)
   \<and> connectToSeedNode (Response 200 ()) (Response 500 ()) 7 (constructor defaults)
     = (True, (constructor defaults)
          \<lparr>connected := True, lastPingTime := Some 7, registrationStatus := FAILED\<rparr>)
   \<and> reconnectIntervalRef (snd (connectToSeedNode (Response 200 ()) (Response 500 ()) 7
        (constructor defaults))) = None"
  by (simp add: connectToSeedNode_def pingSeedNode_def registerWithSeedNode_def constructor_def
        Let_def)

text \<open>
  C2. A failing \<open>pingSeedNode\<close> clears \<open>connected\<close> and returns \<open>false\<close>, but it never
  reaches \<open>handleConnectionFailure\<close>: the \<open>catch\<close> block tests \<open>connected\<close> after
  clearing it, and the branch for a status other than 200 has no such call. On a
  connected service with no reconnect interval, a ping that errors (or answers 503)
  leaves the service disconnected and still without a reconnect interval.
\<close>

theorem failed_ping_starts_no_timer:
  "pingSeedNode (AxiosError msg) now (s\<lparr>connected := True, reconnectIntervalRef := None\<rparr>)
     = (False, s\<lparr>connected := False, reconnectIntervalRef := None\<rparr>)
   \<and> pingSeedNode (Response 503 body) now (s\<lparr>connected := True, reconnectIntervalRef := None\<rparr>)
     = (False, s\<lparr>connected := False, reconnectIntervalRef := None\<rparr>)"
  by (simp add: pingSeedNode_def Let_def)

subsection \<open>The retry counter along a run\<close>

lemma step_counterInv: "counterInv s \<Longrightarrow> counterInv (step s ev)"
  by (cases ev)
     (auto simp add: counterInv_def tick_cases connect_cases ping_cases register_frame pingTick_def
        onModuleDestroy_def stopReconnectInterval_def stopPingInterval_def)

lemma init_counterInv: "counterInv (onModuleInit p r now (constructor env))"
  by (auto simp add: counterInv_def onModuleInit_def startPingInterval_def stopPingInterval_def
        connect_cases constructor_def Let_def)

lemma run_snoc: "run env p r now (events @ [ev]) = step (run env p r now events) ev"
  by (simp add: run_def)

lemma run_counterInv: "counterInv (run env p r now events)"
proof (induction events rule: rev_induct)
  case Nil
  show ?case by (simp add: run_def init_counterInv)
next
  case (snoc ev events)
  then show ?case by (simp add: run_snoc step_counterInv)
qed

lemma step_increment:
  "0 \<le> reconnectAttempts s \<Longrightarrow> reconnectAttempts s < reconnectAttempts (step s ev) \<Longrightarrow>
   reconnectIntervalRef s \<noteq> None \<and> isReconnectTick ev
   \<and> reconnectAttempts (step s ev) = reconnectAttempts s + 1"
  by (cases ev)
     (auto simp add: isReconnectTick_def tick_cases connect_cases ping_cases register_frame
        pingTick_def onModuleDestroy_def stopReconnectInterval_def stopPingInterval_def
        split: if_splits)

lemma successful_tick_resets:
  "fst (reconnectTick p r now s) = Attempted b \<Longrightarrow>
   connected (snd (reconnectTick p r now s)) \<Longrightarrow>
   reconnectAttempts (snd (reconnectTick p r now s)) = 0
   \<and> reconnectIntervalRef (snd (reconnectTick p r now s)) = None"
  by (auto simp add: tick_cases split: if_splits)

lemma exhausted_state:
  "run defaults unreachable unreachable 0 sixFailedTicks =
     (constructor defaults)\<lparr>pingIntervalRef := Some (Interval 30000), reconnectAttempts := 5\<rparr>"
  by (simp add: run_def sixFailedTicks_def unreachable_def tick_cases onModuleInit_def
        connect_cases pingFails_def startPingInterval_def stopPingInterval_def constructor_def
        defaults_def orNumber_def orString_def Let_def)

text \<open>
  C6. The firing that gives up clears the interval and returns, without the reset of
  \<open>reconnectAttempts\<close> that the firing of a successful reconnect does. With the default
  configuration, a failed start and six firings against an unreachable seed node leave
  no reconnect interval armed and the counter at 5, not at 0. The counter then stays
  there: an interval armed again by \<open>handleConnectionFailure\<close> gives up at its first
  firing, without a connection attempt, although the seed node would answer.
\<close>

theorem counter_survives_giving_up:
  "reconnectIntervalRef (run defaults unreachable unreachable 0 sixFailedTicks) = None
   \<and> reconnectAttempts (run defaults unreachable unreachable 0 sixFailedTicks) = 5
   \<and> reconnectIntervalRef
        (handleConnectionFailure (run defaults unreachable unreachable 0 sixFailedTicks)) \<noteq> None
   \<and> reconnectTick (Response 200 ()) (Response 201 ()) 7
        (handleConnectionFailure (run defaults unreachable unreachable 0 sixFailedTicks))
       = (GaveUp, run defaults unreachable unreachable 0 sixFailedTicks)"
  unfolding exhausted_state
  by (simp add: tick_cases handleConnectionFailure_def startReconnectInterval_def
        stopReconnectInterval_def constructor_def defaults_def orNumber_def Let_def)

subsection \<open>Giving up after the configured number of attempts\<close>

lemma failed_attempt:
  "fst (reconnectTick p r now s) = Attempted False \<Longrightarrow>
   reconnectIntervalRef s \<noteq> None
   \<and> reconnectAttempts s < maxReconnectAttempts (config s)
   \<and> snd (reconnectTick p r now s)
       = s\<lparr>reconnectAttempts := reconnectAttempts s + 1, connected := False\<rparr>"
  by (auto simp add: tick_cases split: if_splits)

lemma other_event_frame:
  "\<not> isReconnectTick ev \<Longrightarrow> ev \<noteq> Destroy \<Longrightarrow>
   reconnectAttempts (step s ev) = reconnectAttempts s
   \<and> config (step s ev) = config s
   \<and> (reconnectIntervalRef s \<noteq> None \<longrightarrow> reconnectIntervalRef (step s ev) = reconnectIntervalRef s)"
  by (cases ev)
     (auto simp add: isReconnectTick_def connect_cases ping_cases register_frame pingTick_def)

lemma firings_other:
  "\<not> isReconnectTick ev \<Longrightarrow> firings s (ev # rest) = firings (step s ev) rest"
  by (cases ev) (simp_all add: isReconnectTick_def)

lemma failed_firings_count:
  "Destroy \<notin> set evs \<Longrightarrow> reconnectIntervalRef s \<noteq> None \<Longrightarrow>
   firings s evs = replicate k (Attempted False) \<Longrightarrow>
   reconnectAttempts (foldl step s evs) = reconnectAttempts s + int k
   \<and> config (foldl step s evs) = config s
   \<and> reconnectIntervalRef (foldl step s evs) = reconnectIntervalRef s
   \<and> (0 < k \<longrightarrow> reconnectAttempts (foldl step s evs) \<le> maxReconnectAttempts (config s))"
proof (induction evs arbitrary: s k)
  case Nil
  then show ?case by simp
next
  case (Cons ev rest)
  show ?case
  proof (cases "isReconnectTick ev")
    case False
    from Cons.prems have nd: "ev \<noteq> Destroy" "Destroy \<notin> set rest" by auto
    note fr = other_event_frame[OF False nd(1), of s]
    from Cons.prems(3) False have f: "firings (step s ev) rest = replicate k (Attempted False)"
      by (simp add: firings_other)
    from fr Cons.prems(2) have armed: "reconnectIntervalRef (step s ev) \<noteq> None" by simp
    from Cons.IH[OF nd(2) armed f] fr Cons.prems(2) show ?thesis by auto
  next
    case True
    then obtain p r now where ev: "ev = ReconnectTick p r now"
      by (cases ev) (simp_all add: isReconnectTick_def)
    from Cons.prems(3) ev obtain k' where k: "k = Suc k'"
      and hd: "fst (reconnectTick p r now s) = Attempted False"
      and tl: "firings (snd (reconnectTick p r now s)) rest = replicate k' (Attempted False)"
      by (cases k) simp_all
    from failed_attempt[OF hd]
    have s1: "snd (reconnectTick p r now s)
        = s\<lparr>reconnectAttempts := reconnectAttempts s + 1, connected := False\<rparr>"
      and lt: "reconnectAttempts s < maxReconnectAttempts (config s)" by simp_all
    from Cons.prems have nd: "Destroy \<notin> set rest" by simp
    have armed: "reconnectIntervalRef
        (s\<lparr>reconnectAttempts := reconnectAttempts s + 1, connected := False\<rparr>) \<noteq> None"
      using Cons.prems(2) by simp
    from Cons.IH[OF nd armed, of k'] tl s1 lt show ?thesis
      by (cases "k' = 0") (simp_all add: ev k)
  qed
qed

text \<open>
  Once the counter has reached the maximum, no event lowers it, and no later firing
  makes a connection attempt.
\<close>

lemma exhausted_stays:
  "maxReconnectAttempts (config s) \<le> reconnectAttempts s \<Longrightarrow>
   maxReconnectAttempts (config (step s ev)) \<le> reconnectAttempts (step s ev)"
  by (cases ev)
     (auto simp add: tick_cases connect_cases ping_cases register_frame pingTick_def
        onModuleDestroy_def stopReconnectInterval_def stopPingInterval_def)

lemma exhausted_never_attempts:
  "maxReconnectAttempts (config s) \<le> reconnectAttempts s \<Longrightarrow> noAttempts (firings s later)"
proof (induction later arbitrary: s)
  case Nil
  show ?case by (simp add: noAttempts_def)
next
  case (Cons ev rest)
  from exhausted_stays[OF Cons.prems, of ev] have nxt: "noAttempts (firings (step s ev) rest)"
    by (rule Cons.IH)
  show ?case
  proof (cases "isReconnectTick ev")
    case False
    with nxt show ?thesis by (simp add: firings_other)
  next
    case True
    then obtain p r now where ev: "ev = ReconnectTick p r now"
      by (cases ev) (simp_all add: isReconnectTick_def)
    from Cons.prems
    have "fst (reconnectTick p r now s) = NotArmed \<or> fst (reconnectTick p r now s) = GaveUp"
      by (simp add: tick_cases)
    with nxt ev show ?thesis by (simp add: noAttempts_def)
  qed
qed

text \<open>
  Such runs exist for every maximum: from an armed interval, as many firings with a
  failing ping as there are attempts left are that many failed attempts.
\<close>

lemma failing_firings_are_failed_attempts:
  "reconnectIntervalRef s \<noteq> None \<Longrightarrow>
   reconnectAttempts s + int (length evs) \<le> maxReconnectAttempts (config s) \<Longrightarrow>
   list_all failingTick evs \<Longrightarrow>
   firings s evs = replicate (length evs) (Attempted False)"
proof (induction evs arbitrary: s)
  case Nil
  show ?case by simp
next
  case (Cons ev rest)
  from Cons.prems(3) obtain p r now where ev: "ev = ReconnectTick p r now" and pf: "pingFails p"
    by (cases ev) (simp_all add: failingTick_def)
  from Cons.prems pf have t: "reconnectTick p r now s
      = (Attempted False, s\<lparr>reconnectAttempts := reconnectAttempts s + 1, connected := False\<rparr>)"
    by (auto simp add: tick_cases)
  from Cons.prems
  have "firings (s\<lparr>reconnectAttempts := reconnectAttempts s + 1, connected := False\<rparr>) rest
      = replicate (length rest) (Attempted False)"
    by (intro Cons.IH) simp_all
  with t show ?case by (simp add: ev)
qed

lemma rearmed_timer_gives_up_at_once:
  "maxReconnectAttempts (config s) \<le> reconnectAttempts s \<Longrightarrow>
   reconnectTick p r now (handleConnectionFailure (s\<lparr>reconnectIntervalRef := None\<rparr>))
     = (GaveUp, s\<lparr>connected := False, reconnectIntervalRef := None\<rparr>)"
  by (simp add: tick_cases handleConnectionFailure_def startReconnectInterval_def
        stopReconnectInterval_def Let_def)

text \<open>
  C4. Let the reconnect interval be armed in a state of a run, with
  \<open>maxReconnectAttempts = N\<close> (0 included), and let events follow, short of the shutdown,
  among which the interval fires \<open>N\<close> times, each firing calling \<open>connectToSeedNode\<close> and
  getting \<open>false\<close>; pings of the ping interval and calls of the public methods may fall
  anywhere between the firings. Then the counter stands at \<open>N\<close> and the interval is
  still armed; its next firing, whatever the seed node would answer, makes no
  connection attempt and clears the interval; a cleared interval does not fire; no
  firing in any continuation makes a connection attempt; and a later
  \<open>handleConnectionFailure\<close> arms an interval again.
\<close>

theorem gives_up_after_max_failed_attempts:
  assumes "s = run env p0 r0 t0 events"
    and "reconnectIntervalRef s \<noteq> None"
    and "maxReconnectAttempts (config s) = int N"
    and "Destroy \<notin> set evs"
    and "firings s evs = replicate N (Attempted False)"
    and "s' = foldl step s evs"
  shows "reconnectAttempts s' = int N
   \<and> reconnectIntervalRef s' \<noteq> None
   \<and> reconnectTick p r now s' = (GaveUp, s'\<lparr>reconnectIntervalRef := None\<rparr>)
   \<and> reconnectTick p' r' now' (s'\<lparr>reconnectIntervalRef := None\<rparr>)
       = (NotArmed, s'\<lparr>reconnectIntervalRef := None\<rparr>)
   \<and> noAttempts (firings s' later)
   \<and> reconnectIntervalRef (handleConnectionFailure (s'\<lparr>reconnectIntervalRef := None\<rparr>)) \<noteq> None"
proof -
  have inv: "counterInv s" using assms(1) run_counterInv by simp
  note cnt = failed_firings_count[OF assms(4) assms(2) assms(5)]
  have le: "reconnectAttempts s' \<le> int N"
  proof (cases "N = 0")
    case True
    then show ?thesis using inv cnt assms(3,6) by (simp add: counterInv_def)
  next
    case False
    then show ?thesis using cnt assms(3,6) by simp
  qed
  have ge: "int N \<le> reconnectAttempts s'"
    using cnt inv assms(6) by (simp add: counterInv_def)
  have n: "reconnectAttempts s' = int N" using le ge by simp
  have armed: "reconnectIntervalRef s' \<noteq> None" using cnt assms(2,6) by simp
  have cfg: "maxReconnectAttempts (config s') = int N" using cnt assms(3,6) by simp
  have never: "noAttempts (firings s' later)"
    using exhausted_never_attempts[of s' later] n cfg by simp
  show ?thesis
    using n armed cfg never
    by (simp add: tick_cases handleConnectionFailure_def startReconnectInterval_def
          stopReconnectInterval_def Let_def)
qed

lemma armed_state:
  "run twoAttempts unreachable unreachable 0 [] =
     (constructor twoAttempts)
       \<lparr>pingIntervalRef := Some (Interval 30000), reconnectIntervalRef := Some (Interval 10000)\<rparr>"
  by (simp add: run_def unreachable_def onModuleInit_def connect_cases pingFails_def
        startPingInterval_def stopPingInterval_def constructor_def twoAttempts_def
        defaults_def orNumber_def orString_def Let_def)

lemma zero_armed_state:
  "run zeroAttempts unreachable unreachable 0 [] =
     (constructor zeroAttempts)
       \<lparr>pingIntervalRef := Some (Interval 30000), reconnectIntervalRef := Some (Interval 10000)\<rparr>"
  by (simp add: run_def unreachable_def onModuleInit_def connect_cases pingFails_def
        startPingInterval_def stopPingInterval_def constructor_def zeroAttempts_def
        defaults_def orNumber_def orString_def Let_def)

lemma two_failed_firings:
  "firings (run twoAttempts unreachable unreachable 0 []) twoFailedFirings
     = [Attempted False, Attempted False]"
  unfolding armed_state
  by (simp add: twoFailedFirings_def unreachable_def tick_cases ping_cases pingTick_def
        pingFails_def constructor_def twoAttempts_def defaults_def orNumber_def orString_def Let_def)

text \<open>
  With \<open>MAX_RECONNECT_ATTEMPTS = 2\<close>: the start fails, two firings fail with pings of the
  ping interval between and after them, and the third firing gives up although the seed
  node would answer. With \<open>MAX_RECONNECT_ATTEMPTS = 0\<close>: the start fails and the first
  firing gives up.
\<close>

theorem gives_up_witness:
  "reconnectIntervalRef (run twoAttempts unreachable unreachable 0 []) \<noteq> None
   \<and> maxReconnectAttempts (config (run twoAttempts unreachable unreachable 0 [])) = int 2
   \<and> Destroy \<notin> set twoFailedFirings
   \<and> firings (run twoAttempts unreachable unreachable 0 []) twoFailedFirings
       = replicate 2 (Attempted False)
   \<and> reconnectAttempts (foldl step (run twoAttempts unreachable unreachable 0 []) twoFailedFirings)
       = 2
   \<and> fst (reconnectTick (Response 200 ()) (Response 201 ()) 5
        (foldl step (run twoAttempts unreachable unreachable 0 []) twoFailedFirings)) = GaveUp
   \<and> reconnectIntervalRef (snd (reconnectTick (Response 200 ()) (Response 201 ()) 5
        (foldl step (run twoAttempts unreachable unreachable 0 []) twoFailedFirings))) = None
   \<and> reconnectIntervalRef (run zeroAttempts unreachable unreachable 0 []) \<noteq> None
   \<and> maxReconnectAttempts (config (run zeroAttempts unreachable unreachable 0 [])) = int 0
   \<and> firings (run zeroAttempts unreachable unreachable 0 []) [PingTick unreachable 1]
       = replicate 0 (Attempted False)
   \<and> fst (reconnectTick (Response 200 ()) (Response 201 ()) 2
        (foldl step (run zeroAttempts unreachable unreachable 0 []) [PingTick unreachable 1]))
       = GaveUp"
proof -
  let ?s = "run twoAttempts unreachable unreachable 0 []"
  let ?z = "run zeroAttempts unreachable unreachable 0 []"
  have a: "reconnectIntervalRef ?s \<noteq> None"
    by (simp add: armed_state)
  have b: "maxReconnectAttempts (config ?s) = int 2"
    unfolding armed_state
    by (simp add: constructor_def twoAttempts_def defaults_def orNumber_def Let_def)
  have c: "Destroy \<notin> set twoFailedFirings"
    by (simp add: twoFailedFirings_def)
  have d: "firings ?s twoFailedFirings = replicate 2 (Attempted False)"
    by (simp add: two_failed_firings numeral_2_eq_2)
  have a0: "reconnectIntervalRef ?z \<noteq> None"
    by (simp add: zero_armed_state)
  have b0: "maxReconnectAttempts (config ?z) = int 0"
    unfolding zero_armed_state
    by (simp add: constructor_def zeroAttempts_def defaults_def orNumber_def Let_def)
  have c0: "Destroy \<notin> set [PingTick unreachable 1]"
    by simp
  have d0: "firings ?z [PingTick unreachable 1] = replicate 0 (Attempted False)"
    by simp
  show ?thesis
    using a b c d a0 b0 d0
      gives_up_after_max_failed_attempts[OF refl a b c d refl,
        where p = "Response 200 ()" and r = "Response 201 ()" and now = 5
          and p' = "Response 200 ()" and r' = "Response 201 ()" and now' = 6
          and later = "[]"]
      gives_up_after_max_failed_attempts[OF refl a0 b0 c0 d0 refl,
        where p = "Response 200 ()" and r = "Response 201 ()" and now = 2
          and p' = "Response 200 ()" and r' = "Response 201 ()" and now' = 3
          and later = "[]"]
    by simp
qed

subsection \<open>The node lists while disconnected\<close>

text \<open>
  C10. While \<open>connected\<close> is false, \<open>getKnownNodes\<close> and \<open>getActiveNodes\<close> return the empty
  list and request no URL, whatever the seed node would answer; the list returned is the
  one a connected service returns when the seed node answers with an empty list.
\<close>

theorem not_connected_lists_nothing:
  assumes "\<not> connected s"
  shows "getKnownNodes reply s = ([], [])
   \<and> getActiveNodes reply s = ([], [])
   \<and> fst (getKnownNodes reply s) = fst (getKnownNodes (Response 200 []) (s\<lparr>connected := True\<rparr>))
   \<and> fst (getActiveNodes reply s) = fst (getActiveNodes (Response 200 []) (s\<lparr>connected := True\<rparr>))"
  using assms by (simp add: getKnownNodes_def getActiveNodes_def Let_def)

theorem not_connected_witness:
  "\<not> connected (constructor defaults)
   \<and> getKnownNodes (Response 200 [''10.0.0.7:3100'']) (constructor defaults) = ([], [])
   \<and> getActiveNodes (Response 200 [''10.0.0.7:3100'']) (constructor defaults) = ([], [])"
proof -
  have h: "\<not> connected (constructor defaults)"
    by (simp add: constructor_def Let_def)
  show ?thesis
    using h not_connected_lists_nothing[OF h, where reply = "Response 200 [''10.0.0.7:3100'']"]
    by simp
qed

section \<open>The validator directory\<close>

text \<open>
  C9. \<open>getActiveValidatorNodes\<close> returns the records of the current collection that have
  \<open>isResponding\<close> set: as a set exactly those, and as a list a subsequence of the
  collection, so in its order. After a load that succeeded, that order is the order in
  which the seed node listed the validators.
\<close>

theorem active_peers_exact:
  "getActiveValidatorNodes s = filter isResponding (getValidatorNodes s)
   \<and> set (getActiveValidatorNodes s) = {node \<in> set (validatorNodes s). isResponding node}
   \<and> subseq (getActiveValidatorNodes s) (validatorNodes s)
   \<and> getActiveValidatorNodes (snd (loadValidatorNodes (Response status (NodeArray allNodes)) s))
       = filter (\<lambda>node. nodeType node = ''validator'' \<and> isResponding node) allNodes"
  by (auto simp add: getActiveValidatorNodes_def getValidatorNodes_def loadValidatorNodes_def Let_def
      intro: arg_cong)

text \<open>
  C5. A load or refresh whose request errors, or whose response body is not an array,
  returns the empty list and leaves the service, and with it the cached collection,
  exactly as it was.
\<close>

theorem failed_load_keeps_collection:
  "loadValidatorNodes (AxiosError msg) s = ([], s)
   \<and> loadValidatorNodes (Response status NotAnArray) s = ([], s)
   \<and> refreshValidatorNodes (AxiosError msg) s = ([], s)
   \<and> refreshValidatorNodes (Response status NotAnArray) s = ([], s)
   \<and> getValidatorNodes (snd (loadValidatorNodes (AxiosError msg) s)) = getValidatorNodes s
   \<and> getValidatorNodes (snd (refreshValidatorNodes (AxiosError msg) s)) = getValidatorNodes s"
  by (simp add: loadValidatorNodes_def refreshValidatorNodes_def)

subsection \<open>The health check\<close>

lemma checkNode_eq:
  "checkNode outcome now node =
     (if pingValidator outcome then node\<lparr>isResponding := True, lastSeen := now\<rparr>
      else node\<lparr>isResponding := False\<rparr>)"
  by (simp add: checkNode_def Let_def)

lemma sweep_nth:
  "i < length (validatorNodes s) \<Longrightarrow>
   validatorNodes (checkValidatorNodesHealth w s) ! i
     = checkNode (request w i (''http://'' @ address (validatorNodes s ! i) @ path PING)) (clock w i)
         (validatorNodes s ! i)"
  by (simp add: checkValidatorNodesHealth_def nth_enumerate_eq del: path.simps)

lemma sweep_addresses:
  "map address (map (\<lambda>(i, node). checkNode (f i node) (c i) node) (enumerate n nodes))
     = map address nodes"
  by (induction nodes arbitrary: n) (simp_all add: checkNode_eq)

text \<open>
  C7. A health check keeps the number of records and their addresses, in order, and
  touches nothing else in the service. The record at each position becomes the old
  record at that position with \<open>isResponding\<close> set and \<open>lastSeen\<close> refreshed to the time of
  its own probe when that probe answered with status 200, and the old record with only
  \<open>isResponding\<close> cleared otherwise (the probe errored, timed out, was refused or
  answered another status): no other field and no other record depends on the probe.
\<close>

theorem health_sweep_frame:
  "length (validatorNodes (checkValidatorNodesHealth w s)) = length (validatorNodes s)
   \<and> map address (validatorNodes (checkValidatorNodesHealth w s)) = map address (validatorNodes s)
   \<and> seedNode (checkValidatorNodesHealth w s) = seedNode s
   \<and> healthCheckInterval (checkValidatorNodesHealth w s) = healthCheckInterval s
   \<and> (\<forall>i < length (validatorNodes s).
        let old = validatorNodes s ! i;
            new = validatorNodes (checkValidatorNodesHealth w s) ! i;
            probe = request w i (''http://'' @ address old @ path PING)
        in (pingValidator probe \<longrightarrow> new = old\<lparr>isResponding := True, lastSeen := clock w i\<rparr>)
         \<and> (\<not> pingValidator probe \<longrightarrow> new = old\<lparr>isResponding := False\<rparr>)
         \<and> (pingValidator probe \<longleftrightarrow> (\<exists>body. probe = Observed (Response 200 body))))"
proof -
  have ping: "pingValidator c \<longleftrightarrow> (\<exists>body. c = Observed (Response 200 body))" for c :: "'a call"
    by (simp add: pingValidator_def split: call.splits http.splits)
  have addr: "map address (validatorNodes (checkValidatorNodesHealth w s))
      = map address (validatorNodes s)"
    unfolding checkValidatorNodesHealth_def
    using sweep_addresses[of "\<lambda>i node. request w i (''http://'' @ address node @ path PING)"
        "clock w" 0 "validatorNodes s"]
    by simp
  have len: "length (validatorNodes (checkValidatorNodesHealth w s)) = length (validatorNodes s)"
    by (simp add: checkValidatorNodesHealth_def)
  have rest: "seedNode (checkValidatorNodesHealth w s) = seedNode s"
    "healthCheckInterval (checkValidatorNodesHealth w s) = healthCheckInterval s"
    by (simp_all add: checkValidatorNodesHealth_def)
  show ?thesis
    using ping addr len rest by (simp add: sweep_nth checkNode_eq Let_def del: path.simps)
qed

text \<open>
  Three validators, the probe of B times out: B is marked as not responding with its
  \<open>lastSeen\<close> kept, A is marked as responding with \<open>lastSeen\<close> refreshed.
\<close>

theorem health_sweep_witness:
  "(1::nat) < length (validatorNodes threePeers)
   \<and> \<not> pingValidator (request middleTimesOut 1
          (''http://'' @ address (validatorNodes threePeers ! 1) @ path PING))
   \<and> validatorNodes (checkValidatorNodesHealth middleTimesOut threePeers) ! 1
       = (validatorNodes threePeers ! 1)\<lparr>isResponding := False\<rparr>
   \<and> lastSeen (validatorNodes (checkValidatorNodesHealth middleTimesOut threePeers) ! 1) = ''t0''
   \<and> (0::nat) < length (validatorNodes threePeers)
   \<and> pingValidator (request middleTimesOut 0
          (''http://'' @ address (validatorNodes threePeers ! 0) @ path PING))
   \<and> validatorNodes (checkValidatorNodesHealth middleTimesOut threePeers) ! 0
       = (validatorNodes threePeers ! 0)\<lparr>isResponding := True, lastSeen := ''t1''\<rparr>"
proof -
  have l: "(1::nat) < length (validatorNodes threePeers)"
    "(0::nat) < length (validatorNodes threePeers)"
    by (simp_all add: threePeers_def)
  have b: "\<not> pingValidator (request middleTimesOut 1
          (''http://'' @ address (validatorNodes threePeers ! 1) @ path PING))"
    by (simp add: threePeers_def middleTimesOut_def pingValidator_def)
  have a: "pingValidator (request middleTimesOut 0
          (''http://'' @ address (validatorNodes threePeers ! 0) @ path PING))"
    by (simp add: threePeers_def middleTimesOut_def pingValidator_def)
  have t: "lastSeen (validatorNodes threePeers ! 1) = ''t0''"
    by (simp add: threePeers_def)
  note sweep = health_sweep_frame[of middleTimesOut threePeers,
      THEN conjunct2, THEN conjunct2, THEN conjunct2, THEN conjunct2, rule_format]
  have n1: "validatorNodes (checkValidatorNodesHealth middleTimesOut threePeers) ! 1
       = (validatorNodes threePeers ! 1)\<lparr>isResponding := False\<rparr>"
    using sweep[OF l(1)] b unfolding Let_def by blast
  have n0: "validatorNodes (checkValidatorNodesHealth middleTimesOut threePeers) ! 0
       = (validatorNodes threePeers ! 0)\<lparr>isResponding := True, lastSeen := ''t1''\<rparr>"
    using sweep[OF l(2)] a unfolding Let_def by (simp add: middleTimesOut_def)
  have t1: "lastSeen (validatorNodes (checkValidatorNodesHealth middleTimesOut threePeers) ! 1)
      = ''t0''"
    unfolding n1 using t by simp
  show ?thesis
    using l a b n1 n0 t1 by blast
qed

section \<open>Broadcasting to the active validators\<close>

lemma dispatch_settles:
  "settledValue t (dispatch c now v) =
     \<lparr> success = delivered c,
       data = (case c of Observed (Response st b) \<Rightarrow> Some b | _ \<Rightarrow> None),
       error = (case c of Observed (Response st b) \<Rightarrow> None
                | Observed (AxiosError m) \<Rightarrow> Some m | Thrown m \<Rightarrow> Some m),
       timestamp = now, validatorAddress = address v \<rparr>"
  by (simp add: settledValue_def dispatch_def delivered_def split: call.splits http.splits)

lemma fan_address:
  "map validatorAddress
     (map (settledValue t) (map (\<lambda>(i, v). dispatch (f i v) (c i) v) (enumerate n peers)))
     = map address peers"
  by (induction peers arbitrary: n) (simp_all add: dispatch_settles)

lemma fan_success:
  "map success
     (map (settledValue t) (map (\<lambda>(i, v). dispatch (f i v) (c i) v) (enumerate n peers)))
     = map (\<lambda>(i, v). delivered (f i v)) (enumerate n peers)"
  by (induction peers arbitrary: n) (simp_all add: dispatch_settles)

lemma fan_count:
  "length (filter success
     (map (settledValue t) (map (\<lambda>(i, v). dispatch (f i v) (c i) v) (enumerate n peers))))
     = length (filter (\<lambda>(i, v). delivered (f i v)) (enumerate n peers))"
  by (induction peers arbitrary: n) (simp_all add: dispatch_settles)

lemma fan_onePerPeer: "onePerPeer w e peers (fan w e peers)"
  unfolding onePerPeer_def outcomeOf_def fan_def
  using fan_address[of "settledAt w" "\<lambda>i v. request w i (''http://'' @ address v @ path e)"
      "clock w" 0 peers]
    fan_success[of "settledAt w" "\<lambda>i v. request w i (''http://'' @ address v @ path e)"
      "clock w" 0 peers]
  by simp

lemma fan_deliveredCount: "length (filter success (fan w e peers)) = deliveredCount w e peers"
  unfolding deliveredCount_def outcomeOf_def fan_def
  using fan_count[of "settledAt w" "\<lambda>i v. request w i (''http://'' @ address v @ path e)"
      "clock w" 0 peers]
  by simp

lemma fan_length: "length (fan w e peers) = length peers"
  by (simp add: fan_def)

lemma sendTransaction_fan: "sendTransaction w t s = fan w TX (getActiveValidatorNodes s)"
  unfolding sendTransaction_def fan_def Let_def
  by (cases "getActiveValidatorNodes s = []") simp_all

lemma sendBatchTransactions_fan:
  "sendBatchTransactions w b s = fan w TX_BATCH (getActiveValidatorNodes s)"
  unfolding sendBatchTransactions_def fan_def Let_def
  by (cases "getActiveValidatorNodes s = []") simp_all

lemma sendCriticalProcess_fan:
  "sendCriticalProcess w p s = fan w CRITICAL (getActiveValidatorNodes s)"
  unfolding sendCriticalProcess_def fan_def Let_def
  by (cases "getActiveValidatorNodes s = []") simp_all

lemma getBlockchainStatus_fan:
  "getBlockchainStatus w c s
     = fan w (if c = tx then STATUS_TX else STATUS_CRITICAL) (getActiveValidatorNodes s)"
  unfolding getBlockchainStatus_def fan_def Let_def
  by (cases "getActiveValidatorNodes s = []") simp_all

lemma getMempoolStatus_fan:
  "getMempoolStatus w c s
     = fan w (if c = tx then MEMPOOL_TX else MEMPOOL_CRITICAL) (getActiveValidatorNodes s)"
  unfolding getMempoolStatus_def fan_def Let_def
  by (cases "getActiveValidatorNodes s = []") simp_all

lemmas broadcast_fan =
  sendTransaction_fan sendBatchTransactions_fan sendCriticalProcess_fan
  getBlockchainStatus_fan getMempoolStatus_fan

text \<open>
  C3. Each of the five broadcasts returns one response per active validator, in the
  order of the active validators, each carrying the address of its validator, with
  \<open>success\<close> set exactly when the request to that validator was delivered, whatever the
  other requests came to (a response, an HTTP error, a timeout, a refused connection
  or an exception); and the count that the controller reports is the number of
  delivered requests.
\<close>

theorem broadcast_one_outcome_per_peer:
  "onePerPeer w TX (getActiveValidatorNodes s) (sendTransaction w t s)
   \<and> successCount (postTransaction w t s) = deliveredCount w TX (getActiveValidatorNodes s)
   \<and> onePerPeer w TX_BATCH (getActiveValidatorNodes s) (sendBatchTransactions w b s)
   \<and> successCount (postBatchTransactions w b s)
       = deliveredCount w TX_BATCH (getActiveValidatorNodes s)
   \<and> onePerPeer w CRITICAL (getActiveValidatorNodes s) (sendCriticalProcess w p s)
   \<and> successCount (postCriticalProcess w p s)
       = deliveredCount w CRITICAL (getActiveValidatorNodes s)
   \<and> onePerPeer w (if c = tx then STATUS_TX else STATUS_CRITICAL) (getActiveValidatorNodes s)
        (getBlockchainStatus w c s)
   \<and> respondingValidators (queryBlockchainStatus w (Some c) s)
        = deliveredCount w (if c = tx then STATUS_TX else STATUS_CRITICAL)
            (getActiveValidatorNodes s)
   \<and> onePerPeer w (if c = tx then MEMPOOL_TX else MEMPOOL_CRITICAL) (getActiveValidatorNodes s)
        (getMempoolStatus w c s)
   \<and> respondingValidators (queryMempoolStatus w (Some c) s)
        = deliveredCount w (if c = tx then MEMPOOL_TX else MEMPOOL_CRITICAL)
            (getActiveValidatorNodes s)"
  by (simp add: postTransaction_def postBatchTransactions_def postCriticalProcess_def
        queryBlockchainStatus_def queryMempoolStatus_def Let_def broadcast_fan
        fan_onePerPeer fan_deliveredCount)

text \<open>
  Validators A, B and C, the request to B times out: the responses are those of A, B
  and C in this order, B's alone unsuccessful, and the controller counts 2 of 3.
\<close>

theorem broadcast_example:
  "map (\<lambda>r. (validatorAddress r, success r)) (sendTransaction secondTimesOut () threePeers)
     = [(''A'', True), (''B'', False), (''C'', True)]
   \<and> successCount (postTransaction secondTimesOut () threePeers) = 2
   \<and> totalValidators (postTransaction secondTimesOut () threePeers) = 3"
  using broadcast_one_outcome_per_peer[of secondTimesOut threePeers "()"]
  by (simp add: postTransaction_def sendTransaction_def getActiveValidatorNodes_def threePeers_def
        secondTimesOut_def dispatch_def settledValue_def Let_def)

subsection \<open>No active validator\<close>

lemma no_active_validator:
  assumes "getActiveValidatorNodes s = []"
  shows "sendTransaction w t s = []
   \<and> sendBatchTransactions w b s = []
   \<and> sendCriticalProcess w p s = []
   \<and> getBlockchainStatus w c s = []
   \<and> getMempoolStatus w c s = []
   \<and> postTransaction w t s =
        \<lparr> message = ''Transaction sent to validators'', results = [],
          successCount = 0, totalValidators = 0 \<rparr>
   \<and> results (postBatchTransactions w b s) = []
   \<and> successCount (postBatchTransactions w b s) = 0
   \<and> totalValidators (postBatchTransactions w b s) = 0
   \<and> postCriticalProcess w p s =
        \<lparr> message = ''Critical process sent to validators'', results = [],
          successCount = 0, totalValidators = 0 \<rparr>
   \<and> queryBlockchainStatus w (Some c) s =
        \<lparr> ledgerName = ledgerText c, queried = [], respondingValidators = 0, totalQueried = 0 \<rparr>
   \<and> queryMempoolStatus w (Some c) s =
        \<lparr> ledgerName = ledgerText c, queried = [], respondingValidators = 0, totalQueried = 0 \<rparr>"
  using assms
  by (simp add: sendTransaction_def sendBatchTransactions_def sendCriticalProcess_def
        getBlockchainStatus_def getMempoolStatus_def postTransaction_def
        postBatchTransactions_def postCriticalProcess_def queryBlockchainStatus_def
        queryMempoolStatus_def)

lemma total_is_active_count:
  "totalValidators (postTransaction w t s) = length (getActiveValidatorNodes s)
   \<and> totalValidators (postBatchTransactions w b s) = length (getActiveValidatorNodes s)
   \<and> totalValidators (postCriticalProcess w p s) = length (getActiveValidatorNodes s)
   \<and> totalQueried (queryBlockchainStatus w c' s) = length (getActiveValidatorNodes s)
   \<and> totalQueried (queryMempoolStatus w c' s) = length (getActiveValidatorNodes s)"
  by (simp add: postTransaction_def postBatchTransactions_def postCriticalProcess_def
        queryBlockchainStatus_def queryMempoolStatus_def Let_def broadcast_fan fan_length)

text \<open>
  C8. With no active validator, each of the five broadcasts returns the empty list, as
  a value, and the controller reports it with both counts at 0. The total is the number
  of active validators, so a total of 0 is reported in no other case: a broadcast in
  which every validator failed reports its validators in the total.
\<close>

theorem empty_active_set_is_empty_result:
  "(getActiveValidatorNodes s = [] \<longrightarrow>
      sendTransaction w t s = []
      \<and> sendBatchTransactions w b s = []
      \<and> sendCriticalProcess w p s = []
      \<and> getBlockchainStatus w c s = []
      \<and> getMempoolStatus w c s = []
      \<and> postTransaction w t s =
           \<lparr> message = ''Transaction sent to validators'', results = [],
             successCount = 0, totalValidators = 0 \<rparr>
      \<and> results (postBatchTransactions w b s) = []
      \<and> successCount (postBatchTransactions w b s) = 0
      \<and> totalValidators (postBatchTransactions w b s) = 0
      \<and> postCriticalProcess w p s =
           \<lparr> message = ''Critical process sent to validators'', results = [],
             successCount = 0, totalValidators = 0 \<rparr>
      \<and> queryBlockchainStatus w (Some c) s =
           \<lparr> ledgerName = ledgerText c, queried = [], respondingValidators = 0,
             totalQueried = 0 \<rparr>
      \<and> queryMempoolStatus w (Some c) s =
           \<lparr> ledgerName = ledgerText c, queried = [], respondingValidators = 0,
             totalQueried = 0 \<rparr>)
   \<and> (totalValidators (postTransaction w t s) = 0 \<longleftrightarrow> getActiveValidatorNodes s = [])
   \<and> (totalValidators (postBatchTransactions w b s) = 0 \<longleftrightarrow> getActiveValidatorNodes s = [])
   \<and> (totalValidators (postCriticalProcess w p s) = 0 \<longleftrightarrow> getActiveValidatorNodes s = [])
   \<and> (totalQueried (queryBlockchainStatus w (Some c) s) = 0 \<longleftrightarrow> getActiveValidatorNodes s = [])
   \<and> (totalQueried (queryMempoolStatus w (Some c) s) = 0 \<longleftrightarrow> getActiveValidatorNodes s = [])"
  using no_active_validator[of s w t b p c] total_is_active_count[of w t s b p "Some c"]
  by simp

text \<open>
  One validator that is not responding: nothing is sent, and the counts are 0; with
  three active validators the total is 3.
\<close>

theorem empty_active_set_witness:
  "getActiveValidatorNodes noPeers = []
   \<and> sendTransaction secondTimesOut () noPeers = []
   \<and> successCount (postTransaction secondTimesOut () noPeers) = 0
   \<and> totalValidators (postTransaction secondTimesOut () noPeers) = 0
   \<and> getActiveValidatorNodes threePeers \<noteq> []
   \<and> totalValidators (postTransaction secondTimesOut () threePeers) \<noteq> 0"
proof -
  have h: "getActiveValidatorNodes noPeers = []"
    by (simp add: getActiveValidatorNodes_def noPeers_def)
  have k: "getActiveValidatorNodes threePeers \<noteq> []"
    by (simp add: getActiveValidatorNodes_def threePeers_def)
  show ?thesis
    using h k
      empty_active_set_is_empty_result[where s = noPeers and w = secondTimesOut and t = "()"
        and b = "[]::unit list" and p = "()" and c = tx]
      empty_active_set_is_empty_result[where s = threePeers and w = secondTimesOut and t = "()"
        and b = "[]::unit list" and p = "()" and c = tx]
    by simp
qed

end
